theory Spec2Isabelle
  imports Complex_Main
begin

section \<open>Python floats and the library calls of \<^verbatim>\<open>gemini.py\<close>\<close>

text \<open>
  A Python float is taken as the real number it denotes and arithmetic on floats is exact.
  What the model keeps is every way in which the calls made by \<^verbatim>\<open>riemann_hypotenuse\<close> and
  \<^verbatim>\<open>run_tests\<close> raise instead of returning:
  \<^item> \<^verbatim>\<open>x ** n\<close> on a float raises OverflowError when the result is outside the range of a
    double (underflow gives a value, not an error);
  \<^item> \<^verbatim>\<open>math.exp(x)\<close> raises OverflowError when the result is outside the range of a double;
  \<^item> \<^verbatim>\<open>math.sqrt(x)\<close> raises ValueError on a negative argument;
  \<^item> \<^verbatim>\<open>math.isclose\<close> raises ValueError on a negative tolerance;
  \<^item> \<^verbatim>\<open>d[key]\<close> on a dict raises KeyError on a missing key.

  What the model leaves out is the value a double operation rounds to: the last bit of
  \<^verbatim>\<open>a ** 2\<close>, of \<^verbatim>\<open>math.exp\<close> and of \<^verbatim>\<open>math.sqrt\<close>, the underflow of a square to \<open>0.0\<close>, and
  the silent overflow of \<^verbatim>\<open>+\<close> and \<^verbatim>\<open>*\<close> to \<open>inf\<close>. The model is therefore exact about
  which calls raise and which return, and the theorems below state of a returned value
  only what rounding cannot change: its sign, that two calls have the same outcome, and the
  checks of the six literal cases of \<^verbatim>\<open>run_tests\<close>, whose margins are above 0.003. The
  decimal literals of the source, the tolerances \<open>0.01\<close> and \<open>1e-9\<close> among them, are the
  rationals they are written as.
\<close>

datatype error = OverflowError | ValueError | KeyError

text \<open>\<^verbatim>\<open>sys.float_info.max\<close>, the largest finite double.\<close>

definition DBL_MAX :: real where
  "DBL_MAX = 2 ^ 1024 - 2 ^ 971"

definition float_pow :: "real \<Rightarrow> nat \<Rightarrow> error + real" where
  "float_pow x n = (if DBL_MAX < \<bar>x ^ n\<bar> then Inl OverflowError else Inr (x ^ n))"

definition math_exp :: "real \<Rightarrow> error + real" where
  "math_exp x = (if DBL_MAX < exp x then Inl OverflowError else Inr (exp x))"

definition math_sqrt :: "real \<Rightarrow> error + real" where
  "math_sqrt x = (if x < 0 then Inl ValueError else Inr (sqrt x))"

definition math_isclose :: "real \<Rightarrow> real \<Rightarrow> real \<Rightarrow> real \<Rightarrow> error + bool" where
  "math_isclose x y rel_tol abs_tol =
     (if rel_tol < 0 \<or> abs_tol < 0 then Inl ValueError
      else Inr (\<bar>x - y\<bar> \<le> max (rel_tol * max \<bar>x\<bar> \<bar>y\<bar>) abs_tol))"

definition getitem :: "(string \<rightharpoonup> real) \<Rightarrow> string \<Rightarrow> error + real" where
  "getitem d key = (case d key of None \<Rightarrow> Inl KeyError | Some v \<Rightarrow> Inr v)"


section \<open>\<^verbatim>\<open>riemann_hypotenuse\<close>\<close>

definition riemann_hypotenuse :: "real \<Rightarrow> real \<Rightarrow> real \<Rightarrow> error + real" where
  "riemann_hypotenuse a b spheritude_factor =
     (let spheritude_factor =
            (if spheritude_factor < 0 then \<bar>spheritude_factor\<bar> else spheritude_factor)
      in case float_pow a 2 of Inl e \<Rightarrow> Inl e | Inr a2 \<Rightarrow>
         case float_pow b 2 of Inl e \<Rightarrow> Inl e | Inr b2 \<Rightarrow>
         let base_hypotenuse_squared = a2 + b2
         in case math_exp (spheritude_factor / 10) of Inl e \<Rightarrow> Inl e | Inr distortion_factor \<Rightarrow>
            math_sqrt (base_hypotenuse_squared * distortion_factor))"


section \<open>\<^verbatim>\<open>run_tests\<close>\<close>

text \<open>
  The literal list of test cases. Each case is a dict from its four keys to floats; the
  decimal literals are the rationals they are written as.
\<close>

definition test_cases :: "(string \<rightharpoonup> real) list" where
  "test_cases =
     [[''a'' \<mapsto> 3, ''b'' \<mapsto> 4, ''spheritude_factor'' \<mapsto> 0,
       ''expected_output_tolerance'' \<mapsto> 5],
      [''a'' \<mapsto> 5, ''b'' \<mapsto> 12, ''spheritude_factor'' \<mapsto> 1,
       ''expected_output_tolerance'' \<mapsto> 1367 / 100],
      [''a'' \<mapsto> 6, ''b'' \<mapsto> 8, ''spheritude_factor'' \<mapsto> 5,
       ''expected_output_tolerance'' \<mapsto> 1648 / 100],
      [''a'' \<mapsto> 0, ''b'' \<mapsto> 0, ''spheritude_factor'' \<mapsto> 10,
       ''expected_output_tolerance'' \<mapsto> 0],
      [''a'' \<mapsto> 7, ''b'' \<mapsto> 0, ''spheritude_factor'' \<mapsto> 2,
       ''expected_output_tolerance'' \<mapsto> 778 / 100],
      [''a'' \<mapsto> 3, ''b'' \<mapsto> 4, ''spheritude_factor'' \<mapsto> - 1,
       ''expected_output_tolerance'' \<mapsto> 525 / 100]]"

text \<open>
  What \<^verbatim>\<open>run_tests\<close> prints, one constructor for each \<^verbatim>\<open>print\<close> of the source, with
  the numbers it formats as arguments: the heading, the five lines of a case (its number,
  its inputs, the calculated value, the expected value, its status) and the two closing
  messages. The layout of a formatted number is not modelled.
\<close>

datatype stdout_line =
    Running_Tests
  | Test_Case nat
  | Inputs real real real
  | Calculated real
  | Expected real
  | Status string
  | All_Passed
  | Some_Failed

text \<open>
  The \<^verbatim>\<open>for\<close> loop over \<^verbatim>\<open>enumerate(test_cases)\<close>: \<open>i\<close> is the index of the next case,
  and the state the loop carries is the flag \<^verbatim>\<open>all_tests_passed\<close> and the lines printed so
  far. An exception of the body ends the loop, and the run, with that exception.
\<close>

fun for_loop ::
  "nat \<Rightarrow> (string \<rightharpoonup> real) list \<Rightarrow> bool \<Rightarrow> stdout_line list \<Rightarrow> error + bool \<times> stdout_line list"
where
  "for_loop i [] all_tests_passed printed = Inr (all_tests_passed, printed)"
| "for_loop i (test # rest) all_tests_passed printed =
     (case getitem test ''a'' of Inl e \<Rightarrow> Inl e | Inr a \<Rightarrow>
      case getitem test ''b'' of Inl e \<Rightarrow> Inl e | Inr b \<Rightarrow>
      case getitem test ''spheritude_factor'' of Inl e \<Rightarrow> Inl e | Inr spheritude_factor \<Rightarrow>
      case getitem test ''expected_output_tolerance'' of Inl e \<Rightarrow> Inl e
      | Inr expected_output_tolerance \<Rightarrow>
      case riemann_hypotenuse a b spheritude_factor of Inl e \<Rightarrow> Inl e | Inr calculated_h \<Rightarrow>
      let tolerance_abs = 1 / 100;
          tolerance_rel = 1 / 10 ^ 9
      in case math_isclose calculated_h expected_output_tolerance tolerance_rel tolerance_abs of
           Inl e \<Rightarrow> Inl e
         | Inr is_close \<Rightarrow>
             let status = (if is_close then ''PASSED'' else ''FAILED'');
                 all_tests_passed = (if \<not> is_close then False else all_tests_passed)
             in for_loop (i + 1) rest all_tests_passed
                  (printed @
                   [Test_Case (i + 1),
                    Inputs a b spheritude_factor,
                    Calculated calculated_h,
                    Expected expected_output_tolerance,
                    Status status]))"

definition run_tests :: "error + stdout_line list" where
  "run_tests =
     (case for_loop 0 test_cases True [Running_Tests] of
        Inl e \<Rightarrow> Inl e
      | Inr (all_tests_passed, printed) \<Rightarrow>
          Inr (printed @ [if all_tests_passed then All_Passed else Some_Failed]))"

text \<open>
  The check the specification names for a case: approximate equality with absolute
  tolerance 0.01 and relative tolerance 1e-9, and the five lines reported for a case
  numbered \<open>j\<close> with inputs \<open>a\<close>, \<open>b\<close>, \<open>k\<close>, expected value \<open>e\<close> and calculated value \<open>h\<close>.
\<close>

definition approx_equal :: "real \<Rightarrow> real \<Rightarrow> bool" where
  "approx_equal calculated expected \<longleftrightarrow>
     \<bar>calculated - expected\<bar> \<le> max (1 / 10 ^ 9 * max \<bar>calculated\<bar> \<bar>expected\<bar>) (1 / 100)"

fun case_report :: "nat \<times> real \<times> real \<times> real \<times> real \<times> real \<Rightarrow> stdout_line list" where
  "case_report (j, a, b, k, e, h) =
     [Test_Case j, Inputs a b k, Calculated h, Expected e,
      Status (if approx_equal h e then ''PASSED'' else ''FAILED'')]"

fun case_passes :: "real \<times> real \<times> real \<times> real \<times> real \<Rightarrow> bool" where
  "case_passes (a, b, k, e, h) = approx_equal h e"

text \<open>
  A dict \<open>t\<close> is the case \<open>(a, b, k, e, h)\<close>: it holds the inputs \<open>a\<close>, \<open>b\<close>, \<open>k\<close> and the
  expected value \<open>e\<close> under the four keys, and \<^verbatim>\<open>riemann_hypotenuse\<close> returns \<open>h\<close> on it.
\<close>

fun is_case :: "(string \<rightharpoonup> real) \<Rightarrow> real \<times> real \<times> real \<times> real \<times> real \<Rightarrow> bool" where
  "is_case t (a, b, k, e, h) \<longleftrightarrow>
     t ''a'' = Some a \<and> t ''b'' = Some b \<and> t ''spheritude_factor'' = Some k \<and>
     t ''expected_output_tolerance'' = Some e \<and> riemann_hypotenuse a b k = Inr h"


section \<open>Bounds on the exponential and on the range of a double\<close>

lemma exp_nat_ge: "2 ^ n \<le> exp (real n)"
proof -
  have "(2::real) \<le> exp 1"
    using exp_ge_add_one_self [of "1::real"] by simp
  then have "(2::real) ^ n \<le> exp 1 ^ n"
    by (intro power_mono) simp_all
  also have "\<dots> = exp (real n)"
    using exp_of_nat_mult [of n "1::real"] by simp
  finally show ?thesis .
qed

lemma exp_overflows: "2000 \<le> x \<Longrightarrow> DBL_MAX < exp x"
proof -
  assume "2000 \<le> x"
  have "DBL_MAX < 2 ^ 2000"
    by (simp add: DBL_MAX_def)
  also have "\<dots> \<le> exp (real 2000)"
    by (rule exp_nat_ge)
  also have "\<dots> \<le> exp x"
    using \<open>2000 \<le> x\<close> by simp
  finally show ?thesis .
qed

lemma square_overflows: "DBL_MAX < ((2::real) ^ 600)\<^sup>2"
  by (simp add: DBL_MAX_def)

lemma exp_in_range: "x \<le> 600 \<Longrightarrow> exp x \<le> DBL_MAX"
proof -
  assume "x \<le> 600"
  then have "exp x \<le> exp 600"
    by simp
  also have "exp (600::real) = exp 1 ^ 600"
    using exp_of_nat_mult [of 600 "1::real"] by simp
  also have "\<dots> \<le> 3 ^ 600"
    by (intro power_mono exp_le) simp
  also have "\<dots> \<le> DBL_MAX"
    by (simp add: DBL_MAX_def)
  finally show ?thesis .
qed

lemma square_in_range: "\<bar>x\<bar> \<le> 10 ^ 154 \<Longrightarrow> x\<^sup>2 \<le> DBL_MAX"
proof -
  assume "\<bar>x\<bar> \<le> 10 ^ 154"
  then have "\<bar>x\<bar>\<^sup>2 \<le> (10 ^ 154)\<^sup>2"
    by (intro power_mono) simp_all
  also have "\<dots> \<le> DBL_MAX"
    by (simp add: DBL_MAX_def)
  finally show ?thesis by simp
qed

lemma exp_upper_cubic:
  fixes x :: real
  assumes "0 \<le> x" "x \<le> 1"
  shows "exp x \<le> 1 + x + x\<^sup>2 / 2 + x ^ 3 / 2"
proof -
  obtain t where t: "\<bar>t\<bar> \<le> \<bar>x\<bar>"
    and ex: "exp x = (\<Sum>m<3. x ^ m / fact m) + exp t / fact 3 * x ^ 3"
    using Maclaurin_exp_le [of x 3] by blast
  have "exp t \<le> exp 1"
    using t assms by simp
  then have "exp t \<le> 3"
    using exp_le by linarith
  then have "exp t * x ^ 3 \<le> 3 * x ^ 3"
    using assms by (intro mult_right_mono) simp_all
  moreover have "(\<Sum>m<3. x ^ m / fact m) = 1 + x + x\<^sup>2 / 2"
    by (simp add: numeral_3_eq_3 power2_eq_square)
  moreover have "fact 3 = (6::real)"
    by (simp add: fact_numeral)
  ultimately show ?thesis
    using ex by simp
qed


section \<open>Outcome of a call\<close>

lemma float_pow_2: "float_pow x 2 = (if x\<^sup>2 \<le> DBL_MAX then Inr (x\<^sup>2) else Inl OverflowError)"
  by (simp add: float_pow_def not_less)

lemma math_exp_cases: "math_exp x = (if exp x \<le> DBL_MAX then Inr (exp x) else Inl OverflowError)"
  by (simp add: math_exp_def not_less)

lemma riemann_hypotenuse_outcome:
  "riemann_hypotenuse a b k =
     (if a\<^sup>2 \<le> DBL_MAX \<and> b\<^sup>2 \<le> DBL_MAX \<and> exp (\<bar>k\<bar> / 10) \<le> DBL_MAX
      then Inr (sqrt ((a\<^sup>2 + b\<^sup>2) * exp (\<bar>k\<bar> / 10)))
      else Inl OverflowError)"
proof -
  have clamp: "(if k < 0 then \<bar>k\<bar> else k) = \<bar>k\<bar>"
    by simp
  have nonneg: "\<not> (a\<^sup>2 + b\<^sup>2) * exp (\<bar>k\<bar> / 10) < 0"
    by (simp add: not_less)
  show ?thesis
    unfolding riemann_hypotenuse_def Let_def clamp float_pow_2 math_exp_cases
    using nonneg by (simp add: math_sqrt_def)
qed


section \<open>Evenness in the spheritude factor\<close>

text \<open>
  C7. \<^verbatim>\<open>riemann_hypotenuse\<close> is even in its third argument: the call at \<open>- k\<close> has the
  outcome of the call at \<open>k\<close> (the same value, or the same error), because a negative
  factor is replaced by its absolute value before it is used.
\<close>

theorem riemann_hypotenuse_even:
  "riemann_hypotenuse a b k = riemann_hypotenuse a b (- k)"
proof -
  have "(if k < 0 then \<bar>k\<bar> else k) = (if - k < 0 then \<bar>- k\<bar> else - k)"
    by simp
  then show ?thesis
    unfolding riemann_hypotenuse_def by (simp only:)
qed

text \<open>
  The error is the same on both sides too: at the factors \<open>30000\<close> and \<open>- 30000\<close> both
  calls end in the OverflowError of \<^verbatim>\<open>math.exp\<close>.
\<close>

lemma riemann_hypotenuse_even_raising:
  "riemann_hypotenuse 3 4 30000 = Inl OverflowError \<and>
   riemann_hypotenuse 3 4 (- 30000) = Inl OverflowError"
proof -
  have "DBL_MAX < exp (\<bar>30000\<bar> / 10)" "DBL_MAX < exp (\<bar>- 30000\<bar> / 10)"
    by (rule exp_overflows, simp)+
  then show ?thesis
    by (simp add: riemann_hypotenuse_outcome)
qed


section \<open>Where a call returns and where it raises\<close>

text \<open>
  C5, as amended. \<^verbatim>\<open>riemann_hypotenuse\<close> is not total: it returns a value exactly when
  \<open>a\<^sup>2\<close>, \<open>b\<^sup>2\<close> and \<open>exp (\<bar>k\<bar> / 10)\<close> are within the range of a double, and the only error
  it raises is the OverflowError of \<^verbatim>\<open>a ** 2\<close>, \<^verbatim>\<open>b ** 2\<close> or \<^verbatim>\<open>math.exp\<close> (the ValueError
  of \<^verbatim>\<open>math.sqrt\<close> is never reached). In particular it returns a value whenever
  \<open>\<bar>a\<bar>, \<bar>b\<bar> \<le> 10\<^sup>1\<^sup>5\<^sup>4\<close> and \<open>\<bar>k\<bar> \<le> 6000\<close>. A negative \<open>k\<close> is never rejected for its sign: the
  call behaves as the call at \<open>\<bar>k\<bar>\<close>.
\<close>

theorem riemann_hypotenuse_returns_in_range:
  "((\<exists>r. riemann_hypotenuse a b k = Inr r) \<longleftrightarrow>
      a\<^sup>2 \<le> DBL_MAX \<and> b\<^sup>2 \<le> DBL_MAX \<and> exp (\<bar>k\<bar> / 10) \<le> DBL_MAX) \<and>
   (riemann_hypotenuse a b k = Inl e \<longrightarrow> e = OverflowError) \<and>
   (\<bar>a\<bar> \<le> 10 ^ 154 \<and> \<bar>b\<bar> \<le> 10 ^ 154 \<and> \<bar>k\<bar> \<le> 6000 \<longrightarrow>
      (\<exists>r. riemann_hypotenuse a b k = Inr r)) \<and>
   (k < 0 \<longrightarrow> riemann_hypotenuse a b k = riemann_hypotenuse a b \<bar>k\<bar>)"
proof (intro conjI impI)
  show "(\<exists>r. riemann_hypotenuse a b k = Inr r) \<longleftrightarrow>
      a\<^sup>2 \<le> DBL_MAX \<and> b\<^sup>2 \<le> DBL_MAX \<and> exp (\<bar>k\<bar> / 10) \<le> DBL_MAX"
    by (simp add: riemann_hypotenuse_outcome)
next
  assume "riemann_hypotenuse a b k = Inl e"
  then show "e = OverflowError"
    by (simp add: riemann_hypotenuse_outcome split: if_splits)
next
  assume dom: "\<bar>a\<bar> \<le> 10 ^ 154 \<and> \<bar>b\<bar> \<le> 10 ^ 154 \<and> \<bar>k\<bar> \<le> 6000"
  then have "a\<^sup>2 \<le> DBL_MAX" "b\<^sup>2 \<le> DBL_MAX"
    by (simp_all add: square_in_range)
  moreover have "exp (\<bar>k\<bar> / 10) \<le> DBL_MAX"
    using dom by (intro exp_in_range) simp
  ultimately show "\<exists>r. riemann_hypotenuse a b k = Inr r"
    by (simp add: riemann_hypotenuse_outcome)
next
  show "riemann_hypotenuse a b k = riemann_hypotenuse a b \<bar>k\<bar>"
    by (simp add: riemann_hypotenuse_outcome)
qed

text \<open>The amended claim at \<open>(5, 12, - 1)\<close>: the call returns, as the call at \<open>(5, 12, 1)\<close> does.\<close>

theorem riemann_hypotenuse_returns_in_range_witness:
  "(\<exists>r. riemann_hypotenuse 5 12 (- 1) = Inr r) \<and>
   riemann_hypotenuse 5 12 (- 1) = riemann_hypotenuse 5 12 1"
proof -
  have "\<bar>5::real\<bar> \<le> 10 ^ 154 \<and> \<bar>12::real\<bar> \<le> 10 ^ 154 \<and> \<bar>- 1::real\<bar> \<le> 6000"
    by simp
  moreover have "(- 1::real) < 0"
    by simp
  ultimately have outcome: "(\<exists>r. riemann_hypotenuse 5 12 (- 1) = Inr r) \<and>
      riemann_hypotenuse 5 12 (- 1) = riemann_hypotenuse 5 12 \<bar>- 1\<bar>"
    using riemann_hypotenuse_returns_in_range [of 5 12 "- 1"] by blast
  have "\<bar>- 1::real\<bar> = 1"
    by simp
  with outcome show ?thesis
    by metis
qed

text \<open>
  The claim as stated fails at \<^verbatim>\<open>riemann_hypotenuse(1.0, 1.0, 100000.0)\<close>:
  \<^verbatim>\<open>math.exp(10000.0)\<close> raises OverflowError.
\<close>

theorem riemann_hypotenuse_raises_counterexample:
  "riemann_hypotenuse 1 1 100000 = Inl OverflowError"
proof -
  have "DBL_MAX < exp (\<bar>100000\<bar> / 10)"
    by (rule exp_overflows) simp
  then show ?thesis
    by (simp add: riemann_hypotenuse_outcome)
qed


section \<open>The steps of the computation\<close>





section \<open>Sign of the result\<close>

text \<open>
  C4, as amended. At every \<open>a\<close>, \<open>b\<close>, \<open>k\<close> for which \<open>a\<^sup>2\<close>, \<open>b\<^sup>2\<close> and \<open>exp (\<bar>k\<bar> / 10)\<close> are
  within the range of a double, \<^verbatim>\<open>riemann_hypotenuse\<close> returns a value, and the value is
  greater than or equal to 0; at every other input it raises OverflowError and there is
  no value.
\<close>

theorem riemann_hypotenuse_nonneg:
  "(if a\<^sup>2 \<le> DBL_MAX \<and> b\<^sup>2 \<le> DBL_MAX \<and> exp (\<bar>k\<bar> / 10) \<le> DBL_MAX
    then \<exists>r. riemann_hypotenuse a b k = Inr r \<and> 0 \<le> r
    else riemann_hypotenuse a b k = Inl OverflowError)"
  by (simp add: riemann_hypotenuse_outcome)

theorem riemann_hypotenuse_nonneg_witness:
  "\<exists>r. riemann_hypotenuse (- 3) 4 (- 1) = Inr r \<and> 0 \<le> r"
proof -
  have "exp (\<bar>- 1\<bar> / 10) \<le> DBL_MAX"
    by (rule exp_in_range) simp
  moreover have "(- 3::real)\<^sup>2 \<le> DBL_MAX" "(4::real)\<^sup>2 \<le> DBL_MAX"
    by (simp_all add: DBL_MAX_def)
  ultimately show ?thesis
    using riemann_hypotenuse_nonneg [of "- 3" 4 "- 1"] by simp
qed

text \<open>
  The claim as stated fails at \<open>a = 0\<close>, \<open>b = 2\<^sup>6\<^sup>0\<^sup>0\<close>, \<open>k = 3\<close>: the call raises, so it has no
  result to compare with 0.
\<close>

theorem riemann_hypotenuse_nonneg_counterexample:
  "riemann_hypotenuse 0 (2 ^ 600) 3 = Inl OverflowError"
  using square_overflows by (simp add: riemann_hypotenuse_outcome)


section \<open>Zero factor\<close>

text \<open>
  C8, as amended. At \<open>k = 0\<close> the distortion factor \<^verbatim>\<open>math.exp(0 / 10.0)\<close> is exactly 1,
  and \<^verbatim>\<open>riemann_hypotenuse(a, b, 0)\<close> has the outcome of \<^verbatim>\<open>math.sqrt(a ** 2 + b ** 2)\<close>, the
  Euclidean magnitude as the code forms it: the same value where \<^verbatim>\<open>a ** 2\<close> and \<^verbatim>\<open>b ** 2\<close>
  return, and the same OverflowError where one of them raises.
\<close>

theorem riemann_hypotenuse_zero_factor:
  "math_exp (0 / 10) = Inr 1 \<and>
   riemann_hypotenuse a b 0 =
     (case float_pow a 2 of Inl e \<Rightarrow> Inl e | Inr a2 \<Rightarrow>
      case float_pow b 2 of Inl e \<Rightarrow> Inl e | Inr b2 \<Rightarrow>
      math_sqrt (a2 + b2))"
proof
  have one: "\<not> DBL_MAX < 1"
    by (simp add: DBL_MAX_def)
  then show factor: "math_exp (0 / 10) = Inr 1"
    by (simp add: math_exp_def)
  show "riemann_hypotenuse a b 0 =
     (case float_pow a 2 of Inl e \<Rightarrow> Inl e | Inr a2 \<Rightarrow>
      case float_pow b 2 of Inl e \<Rightarrow> Inl e | Inr b2 \<Rightarrow>
      math_sqrt (a2 + b2))"
    unfolding riemann_hypotenuse_def Let_def
    using factor by (simp split: sum.splits)
qed

text \<open>The amended claim at \<open>a = 3\<close>, \<open>b = 4\<close>: both sides return 5.\<close>

theorem riemann_hypotenuse_zero_factor_witness:
  "riemann_hypotenuse 3 4 0 = Inr 5 \<and>
   (case float_pow 3 2 of Inl e \<Rightarrow> Inl e | Inr a2 \<Rightarrow>
    case float_pow 4 2 of Inl e \<Rightarrow> Inl e | Inr b2 \<Rightarrow>
    math_sqrt (a2 + b2)) = Inr 5"
proof -
  have "(3::real)\<^sup>2 \<le> DBL_MAX" "(4::real)\<^sup>2 \<le> DBL_MAX"
    by (simp_all add: DBL_MAX_def)
  then have "(case float_pow 3 2 of Inl e \<Rightarrow> Inl e | Inr a2 \<Rightarrow>
      case float_pow 4 2 of Inl e \<Rightarrow> Inl e | Inr b2 \<Rightarrow>
      math_sqrt (a2 + b2)) = Inr 5"
    by (simp add: float_pow_2 math_sqrt_def)
  then show ?thesis
    using riemann_hypotenuse_zero_factor [of 3 4] by simp
qed

text \<open>
  The claim as stated fails at \<open>a = b = 2\<^sup>6\<^sup>0\<^sup>0\<close> (the double \<^verbatim>\<open>2.0 ** 600\<close>): \<^verbatim>\<open>a ** 2\<close>
  raises OverflowError, and the call does not return the Euclidean magnitude.
\<close>

theorem riemann_hypotenuse_zero_factor_counterexample:
  "riemann_hypotenuse (2 ^ 600) (2 ^ 600) 0 = Inl OverflowError \<and>
   riemann_hypotenuse (2 ^ 600) (2 ^ 600) 0 \<noteq>
     Inr (sqrt (2 ^ 600 * 2 ^ 600 + 2 ^ 600 * 2 ^ 600))"
proof -
  have raises: "riemann_hypotenuse (2 ^ 600) (2 ^ 600) 0 = Inl OverflowError"
    using square_overflows by (simp add: riemann_hypotenuse_outcome)
  show ?thesis
    unfolding raises by (simp only: sum.distinct simp_thms)
qed


section \<open>Zero dimensions\<close>

text \<open>
  With both dimensions zero the call returns 0 as long as \<^verbatim>\<open>math.exp\<close> returns, and raises
  the OverflowError of \<^verbatim>\<open>math.exp\<close> otherwise.
\<close>

lemma zero_dimensions_outcome:
  "riemann_hypotenuse 0 0 k =
     (if exp (\<bar>k\<bar> / 10) \<le> DBL_MAX then Inr 0 else Inl OverflowError)"
  by (simp add: riemann_hypotenuse_outcome DBL_MAX_def)

lemma zero_dimensions_test_case: "riemann_hypotenuse 0 0 10 = Inr 0"
proof -
  have "exp (\<bar>10\<bar> / 10) \<le> DBL_MAX"
    by (rule exp_in_range) simp
  then show ?thesis
    by (simp add: zero_dimensions_outcome)
qed

text \<open>
  C9. The source says of its test case 4 that zero dimensions should yield 0 regardless of
  spheritude. The code does not: \<^verbatim>\<open>riemann_hypotenuse(0.0, 0.0, 50000.0)\<close> evaluates
  \<^verbatim>\<open>math.exp(5000.0)\<close>, which raises OverflowError, and no 0 is returned.
\<close>

theorem riemann_hypotenuse_zero_dimensions_raises:
  "riemann_hypotenuse 0 0 50000 = Inl OverflowError \<and> riemann_hypotenuse 0 0 50000 \<noteq> Inr 0"
proof -
  have "DBL_MAX < exp (\<bar>50000\<bar> / 10)"
    by (rule exp_overflows) simp
  then show ?thesis
    by (simp add: riemann_hypotenuse_outcome)
qed


section \<open>The loop of \<^verbatim>\<open>run_tests\<close>\<close>

lemma for_loop_step:
  assumes "is_case t (a, b, k, e, h)"
  shows "for_loop i (t # rest) passed printed =
           for_loop (Suc i) rest (passed \<and> approx_equal h e)
             (printed @ case_report (Suc i, a, b, k, e, h))"
  using assms by (simp add: getitem_def math_isclose_def approx_equal_def Let_def)

lemma for_loop_cases:
  assumes "list_all2 is_case tests cases"
  shows "for_loop i tests passed printed =
           Inr (passed \<and> list_all case_passes cases,
                printed @ concat (map case_report (enumerate (Suc i) cases)))"
  using assms
proof (induction tests cases arbitrary: i passed printed rule: list_all2_induct)
  case Nil
  show ?case by simp
next
  case (Cons t tests c cases)
  obtain a b k e h where c: "c = (a, b, k, e, h)"
    by (cases c)
  have "for_loop i (t # tests) passed printed =
          for_loop (Suc i) tests (passed \<and> approx_equal h e)
            (printed @ case_report (Suc i, a, b, k, e, h))"
    using Cons.hyps(1) unfolding c by (rule for_loop_step)
  also have "\<dots> =
      Inr ((passed \<and> approx_equal h e) \<and> list_all case_passes cases,
           (printed @ case_report (Suc i, a, b, k, e, h)) @
           concat (map case_report (enumerate (Suc (Suc i)) cases)))"
    by (rule Cons.IH)
  finally show ?case
    by (simp add: c)
qed

lemma small_in_range: "x \<le> 1000 \<Longrightarrow> x \<le> DBL_MAX"
  by (simp add: DBL_MAX_def)

lemma test_cases_calculated:
  "list_all2 is_case test_cases
     [(3, 4, 0, 5, 5),
      (5, 12, 1, 1367 / 100, sqrt (169 * exp (1 / 10))),
      (6, 8, 5, 1648 / 100, sqrt (100 * exp (1 / 2))),
      (0, 0, 10, 0, 0),
      (7, 0, 2, 778 / 100, sqrt (49 * exp (1 / 5))),
      (3, 4, - 1, 525 / 100, sqrt (25 * exp (1 / 10)))]"
  by (simp add: test_cases_def riemann_hypotenuse_outcome exp_in_range small_in_range)

lemma approx_equal_near: "\<bar>h - e\<bar> \<le> 1 / 100 \<Longrightarrow> approx_equal h e"
  by (simp add: approx_equal_def max_def)

lemma approx_equal_far:
  assumes "0 \<le> h" and "h \<le> e - 2 / 100" and "e \<le> 1000"
  shows "\<not> approx_equal h e"
proof -
  have "max \<bar>h\<bar> \<bar>e\<bar> = e"
    using assms by simp
  then have "max (1 / 10 ^ 9 * max \<bar>h\<bar> \<bar>e\<bar>) (1 / 100) = 1 / 100"
    using assms by simp
  moreover have "1 / 100 < \<bar>h - e\<bar>"
    using assms by simp
  ultimately show ?thesis
    by (simp add: approx_equal_def)
qed

lemma exp_tenth: "1105 / 1000 \<le> exp (1 / 10 :: real)" "exp (1 / 10 :: real) \<le> 11055 / 10000"
  using exp_lower_Taylor_quadratic [of "1 / 10 :: real"] exp_upper_cubic [of "1 / 10"]
  by (simp_all add: power2_eq_square power3_eq_cube)

lemma exp_fifth: "exp (1 / 5 :: real) \<le> 1224 / 1000"
  using exp_upper_cubic [of "1 / 5"]
  by (simp add: power2_eq_square power3_eq_cube)

lemma exp_half: "exp (1 / 2 :: real) \<le> 16875 / 10000"
  using exp_upper_cubic [of "1 / 2"]
  by (simp add: power2_eq_square power3_eq_cube)

lemma calculated_2: "\<bar>sqrt (169 * exp (1 / 10)) - 1367 / 100\<bar> \<le> 1 / 100"
proof -
  have "sqrt (169 * exp (1 / 10)) \<le> 1368 / 100"
    using exp_tenth(2) by (intro real_le_lsqrt) (simp_all add: power2_eq_square)
  moreover have "1366 / 100 \<le> sqrt (169 * exp (1 / 10))"
    using exp_tenth(1) by (intro real_le_rsqrt) (simp add: power2_eq_square)
  ultimately show ?thesis
    by linarith
qed

lemma calculated_6: "\<bar>sqrt (25 * exp (1 / 10)) - 525 / 100\<bar> \<le> 1 / 100"
proof -
  have "sqrt (25 * exp (1 / 10)) \<le> 526 / 100"
    using exp_tenth(2) by (intro real_le_lsqrt) (simp_all add: power2_eq_square)
  moreover have "524 / 100 \<le> sqrt (25 * exp (1 / 10))"
    using exp_tenth(1) by (intro real_le_rsqrt) (simp add: power2_eq_square)
  ultimately show ?thesis
    by linarith
qed

lemma calculated_3: "sqrt (100 * exp (1 / 2)) \<le> 13"
  using exp_half by (intro real_le_lsqrt) (simp_all add: power2_eq_square)

lemma calculated_5: "sqrt (49 * exp (1 / 5)) \<le> 775 / 100"
  using exp_fifth by (intro real_le_lsqrt) (simp_all add: power2_eq_square)

lemma checks_passed:
  "approx_equal 5 5" "approx_equal 0 0"
  "approx_equal (sqrt (169 * exp (1 / 10))) (1367 / 100)"
  "approx_equal (sqrt (25 * exp (1 / 10))) (525 / 100)"
  using calculated_2 calculated_6 by (simp_all add: approx_equal_near)

lemma checks_failed:
  "\<not> approx_equal (sqrt (100 * exp (1 / 2))) (1648 / 100)"
  "\<not> approx_equal (sqrt (49 * exp (1 / 5))) (778 / 100)"
  using calculated_3 calculated_5 by (simp_all add: approx_equal_far)

text \<open>
  C10. The loop handles any list of cases on which \<^verbatim>\<open>riemann_hypotenuse\<close> returns in the
  same way: it reports every case, in order, with the status the approximate-equality
  check (absolute tolerance 0.01, relative tolerance 1e-9) gives it, whether or not earlier
  cases failed, and its flag ends as the conjunction of the checks. \<^verbatim>\<open>run_tests\<close> prints
  the heading, the reports of all the literal cases in order, and then one summary line,
  which says that all passed exactly when every case passed its check.
\<close>

theorem run_tests_reports_every_case:
  "(list_all2 is_case tests cases \<longrightarrow>
      for_loop i tests passed printed =
        Inr (passed \<and> list_all case_passes cases,
             printed @ concat (map case_report (enumerate (Suc i) cases)))) \<and>
   (\<exists>cases. list_all2 is_case test_cases cases \<and>
      run_tests =
        Inr (Running_Tests # concat (map case_report (enumerate 1 cases)) @
             [if list_all case_passes cases then All_Passed else Some_Failed]))"
proof (intro conjI impI)
  assume "list_all2 is_case tests cases"
  then show "for_loop i tests passed printed =
      Inr (passed \<and> list_all case_passes cases,
           printed @ concat (map case_report (enumerate (Suc i) cases)))"
    by (rule for_loop_cases)
next
  show "\<exists>cases. list_all2 is_case test_cases cases \<and>
      run_tests =
        Inr (Running_Tests # concat (map case_report (enumerate 1 cases)) @
             [if list_all case_passes cases then All_Passed else Some_Failed])"
    using test_cases_calculated
    by (intro exI conjI, assumption)
      (simp add: run_tests_def for_loop_cases [OF test_cases_calculated])
qed

text \<open>
  The theorem at a list of two cases of which the first fails its check: the second case
  is still run and reported, and the flag ends false.
\<close>

theorem run_tests_reports_every_case_witness:
  "for_loop 0
     [[''a'' \<mapsto> 6, ''b'' \<mapsto> 8, ''spheritude_factor'' \<mapsto> 5,
       ''expected_output_tolerance'' \<mapsto> 1648 / 100],
      [''a'' \<mapsto> 3, ''b'' \<mapsto> 4, ''spheritude_factor'' \<mapsto> 0,
       ''expected_output_tolerance'' \<mapsto> 5]]
     True [] =
   Inr (False,
        [Test_Case 1, Inputs 6 8 5, Calculated (sqrt (100 * exp (1 / 2))),
           Expected (1648 / 100), Status ''FAILED'',
         Test_Case 2, Inputs 3 4 0, Calculated 5, Expected 5, Status ''PASSED''])"
proof -
  have cases: "list_all2 is_case
     [[''a'' \<mapsto> 6, ''b'' \<mapsto> 8, ''spheritude_factor'' \<mapsto> 5,
       ''expected_output_tolerance'' \<mapsto> 1648 / 100],
      [''a'' \<mapsto> 3, ''b'' \<mapsto> 4, ''spheritude_factor'' \<mapsto> 0,
       ''expected_output_tolerance'' \<mapsto> 5]]
     [(6, 8, 5, 1648 / 100, sqrt (100 * exp (1 / 2))), (3, 4, 0, 5, 5)]"
    by (simp add: riemann_hypotenuse_outcome exp_in_range small_in_range)
  show ?thesis
    using run_tests_reports_every_case [THEN conjunct1, rule_format, OF cases, of 0 True "[]"]
      checks_passed(1) checks_failed(1)
    by (simp add: enumerate_eq_zip upt_rec)
qed


section \<open>The run on the literal cases\<close>

text \<open>
  C3. On its six literal cases \<^verbatim>\<open>run_tests\<close> prints the lines below: the cases
  \<open>(6, 8, 5)\<close> and \<open>(7, 0, 2)\<close> fail the check against their expected values 16.48 and
  7.78, the other four pass, and the summary says that not all cases passed.
\<close>

theorem run_tests_some_failed:
  "run_tests =
     Inr [Running_Tests,
          Test_Case 1, Inputs 3 4 0, Calculated 5, Expected 5, Status ''PASSED'',
          Test_Case 2, Inputs 5 12 1, Calculated (sqrt (169 * exp (1 / 10))),
            Expected (1367 / 100), Status ''PASSED'',
          Test_Case 3, Inputs 6 8 5, Calculated (sqrt (100 * exp (1 / 2))),
            Expected (1648 / 100), Status ''FAILED'',
          Test_Case 4, Inputs 0 0 10, Calculated 0, Expected 0, Status ''PASSED'',
          Test_Case 5, Inputs 7 0 2, Calculated (sqrt (49 * exp (1 / 5))),
            Expected (778 / 100), Status ''FAILED'',
          Test_Case 6, Inputs 3 4 (- 1), Calculated (sqrt (25 * exp (1 / 10))),
            Expected (525 / 100), Status ''PASSED'',
          Some_Failed] \<and>
   \<not> approx_equal (sqrt (100 * exp (1 / 2))) (1648 / 100) \<and>
   \<not> approx_equal (sqrt (49 * exp (1 / 5))) (778 / 100)"
  unfolding run_tests_def for_loop_cases [OF test_cases_calculated]
  using checks_passed checks_failed by (simp add: enumerate_eq_zip upt_rec)


section \<open>The scenarios of the specification\<close>

text \<open>
  C2. Of the six scenarios, four hold within 0.01 and two do not: at \<open>(6, 8, 5)\<close> the code
  returns \<open>sqrt (100 * exp (1 / 2))\<close>, which is at most 13 and so more than 0.01 away from
  16.48, and at \<open>(7, 0, 2)\<close> it returns \<open>sqrt (49 * exp (1 / 5))\<close>, which is at most 7.75 and
  so more than 0.01 away from 7.78.
\<close>

theorem scenarios_outcome:
  "riemann_hypotenuse 3 4 0 = Inr 5 \<and>
   riemann_hypotenuse 5 12 1 = Inr (sqrt (169 * exp (1 / 10))) \<and>
   \<bar>sqrt (169 * exp (1 / 10)) - 1367 / 100\<bar> \<le> 1 / 100 \<and>
   riemann_hypotenuse 6 8 5 = Inr (sqrt (100 * exp (1 / 2))) \<and>
   1 / 100 < \<bar>sqrt (100 * exp (1 / 2)) - 1648 / 100\<bar> \<and>
   riemann_hypotenuse 0 0 10 = Inr 0 \<and>
   riemann_hypotenuse 7 0 2 = Inr (sqrt (49 * exp (1 / 5))) \<and>
   1 / 100 < \<bar>sqrt (49 * exp (1 / 5)) - 778 / 100\<bar> \<and>
   riemann_hypotenuse 3 4 (- 1) = Inr (sqrt (25 * exp (1 / 10))) \<and>
   \<bar>sqrt (25 * exp (1 / 10)) - 525 / 100\<bar> \<le> 1 / 100"
proof -
  have "1 / 100 < \<bar>sqrt (100 * exp (1 / 2)) - 1648 / 100\<bar>"
    using calculated_3 by linarith
  moreover have "1 / 100 < \<bar>sqrt (49 * exp (1 / 5)) - 778 / 100\<bar>"
    using calculated_5 by linarith
  moreover have "riemann_hypotenuse 3 4 0 = Inr 5"
    "riemann_hypotenuse 5 12 1 = Inr (sqrt (169 * exp (1 / 10)))"
    "riemann_hypotenuse 6 8 5 = Inr (sqrt (100 * exp (1 / 2)))"
    "riemann_hypotenuse 0 0 10 = Inr 0"
    "riemann_hypotenuse 7 0 2 = Inr (sqrt (49 * exp (1 / 5)))"
    "riemann_hypotenuse 3 4 (- 1) = Inr (sqrt (25 * exp (1 / 10)))"
    by (simp_all add: riemann_hypotenuse_outcome exp_in_range small_in_range)
  ultimately show ?thesis
    using calculated_2 calculated_6 by (simp only: simp_thms)
qed

end
